theory Spec2Isabelle
  imports Main
begin

section \<open>JavaScript strings\<close>

text \<open>
  A JavaScript string is a sequence of UTF-16 code units. It is modelled as a list of
  natural numbers, one per code unit. \<open>str\<close> turns an ASCII literal into that form;
  the code units of the non-ASCII letters of the source's messages are written as numbers
  (227 is a-tilde, 233 is e-acute, 10060 is the cross mark, 96 is the backtick, 34 the
  double quote, 10 the line feed).
\<close>

type_synonym jsstring = "nat list"

definition str :: "string \<Rightarrow> jsstring" where
  "str s = map of_char s"

text \<open>
  WhiteSpace and LineTerminator of ECMAScript: the code units that
  \<^verbatim>\<open>String.prototype.trim\<close> strips and that \<^verbatim>\<open>\s\<close> matches in a regular expression.
\<close>

definition is_line_terminator :: "nat \<Rightarrow> bool" where
  "is_line_terminator c = (c = 10 \<or> c = 13 \<or> c = 8232 \<or> c = 8233)"

definition is_white_space :: "nat \<Rightarrow> bool" where
  "is_white_space c =
     (c = 9 \<or> c = 11 \<or> c = 12 \<or> c = 32 \<or> c = 160 \<or> c = 5760 \<or>
      (8192 \<le> c \<and> c \<le> 8202) \<or> c = 8239 \<or> c = 8287 \<or> c = 12288 \<or> c = 65279 \<or>
      is_line_terminator c)"

definition trim :: "jsstring \<Rightarrow> jsstring" where
  "trim s = rev (dropWhile is_white_space (rev (dropWhile is_white_space s)))"

section \<open>Regular expressions\<close>

text \<open>
  The five regular expressions of the source are sequences of single-character atoms,
  each taken once, zero or more times (\<^verbatim>\<open>*\<close>) or one or more times (\<^verbatim>\<open>+\<close>), and the
  assertions \<^verbatim>\<open>^\<close> and \<^verbatim>\<open>$\<close>. \<open>LitI\<close> is a literal character of a pattern with the
  \<^verbatim>\<open>i\<close> flag, \<open>Lit\<close> one of a pattern without it.
\<close>

datatype atom = Lit nat | LitI nat | Space | Dot | Class "(nat \<times> nat) list"

datatype item = One atom | Star atom | Plus atom | Bol | Eol

text \<open>
  Canonicalize of ECMAScript for a pattern without the \<^verbatim>\<open>u\<close> flag maps a code unit to
  its upper case. A code unit from 128 on is never mapped below 128, so for the ASCII
  characters of the patterns here only the letters a to z change.
\<close>

definition canonicalize :: "nat \<Rightarrow> nat" where
  "canonicalize c = (if 97 \<le> c \<and> c \<le> 122 then c - 32 else c)"

fun in_ranges :: "(nat \<times> nat) list \<Rightarrow> nat \<Rightarrow> bool" where
  "in_ranges [] c = False"
| "in_ranges ((lo, hi) # rs) c = ((lo \<le> c \<and> c \<le> hi) \<or> in_ranges rs c)"

fun sat :: "atom \<Rightarrow> nat \<Rightarrow> bool" where
  "sat (Lit p) c = (c = p)"
| "sat (LitI p) c = (canonicalize c = canonicalize p)"
| "sat Space c = is_white_space c"
| "sat Dot c = (\<not> is_line_terminator c)"
| "sat (Class rs) c = in_ranges rs c"

text \<open>
  \<open>matches_at p b s\<close>: the pattern \<open>p\<close> matches a prefix of \<open>s\<close>; \<open>b\<close> says that \<open>s\<close>
  is the whole input (no character consumed yet, match attempted at index 0), which is
  what \<^verbatim>\<open>^\<close> asserts. The engine tries the longest repetition first; for the Boolean
  result of \<^verbatim>\<open>test\<close> the order of the alternatives does not matter.
\<close>

fun matches_at :: "item list \<Rightarrow> bool \<Rightarrow> jsstring \<Rightarrow> bool" where
  "matches_at [] b s = True"
| "matches_at (Bol # p) b s = (if b then matches_at p b s else False)"
| "matches_at (Eol # p) b s = (if s = [] then matches_at p b s else False)"
| "matches_at (One a # p) b [] = False"
| "matches_at (One a # p) b (c # cs) = (if sat a c then matches_at p False cs else False)"
| "matches_at (Star a # p) b [] = matches_at p b []"
| "matches_at (Star a # p) b (c # cs) =
     (if (if sat a c then matches_at (Star a # p) False cs else False) then True
      else matches_at p b (c # cs))"
| "matches_at (Plus a # p) b [] = False"
| "matches_at (Plus a # p) b (c # cs) =
     (if sat a c then matches_at (Star a # p) False cs else False)"

text \<open>\<^verbatim>\<open>RegExp.prototype.test\<close> without the \<^verbatim>\<open>g\<close> flag: a match starting at any index.\<close>

fun test_from :: "item list \<Rightarrow> bool \<Rightarrow> jsstring \<Rightarrow> bool" where
  "test_from p b [] = matches_at p b []"
| "test_from p b (c # cs) = (if matches_at p b (c # cs) then True else test_from p False cs)"

definition test :: "item list \<Rightarrow> jsstring \<Rightarrow> bool" where
  "test p s = test_from p True s"

definition lit_i :: "string \<Rightarrow> item list" where
  "lit_i s = map (\<lambda>c. One (LitI (of_char c))) s"

section \<open>Values and thrown values\<close>

text \<open>
  Values that cross the boundary of the server: tool and prompt arguments, rows from the
  driver, thrown values that are no \<^verbatim>\<open>Error\<close>. \<open>Prim r\<close> is a number, boolean or
  bigint, known by its rendering \<open>r\<close> as a string; the pairs of an \<open>Obj\<close> are the own
  enumerable properties of a plain object, in enumeration order.
\<close>

datatype jsval =
    Undefined
  | Null
  | Prim jsstring
  | Str jsstring
  | Arr "jsval list"
  | Obj "(jsstring \<times> jsval) list"

fun join_comma :: "jsstring list \<Rightarrow> jsstring" where
  "join_comma [] = []"
| "join_comma [x] = x"
| "join_comma (x # y # ys) = x @ [44] @ join_comma (y # ys)"

text \<open>ToString, as applied by a template literal, \<^verbatim>\<open>String(v)\<close> and \<^verbatim>\<open>RegExp.test\<close>.\<close>

fun to_String :: "jsval \<Rightarrow> jsstring" where
  "to_String Undefined = str ''undefined''"
| "to_String Null = str ''null''"
| "to_String (Prim r) = r"
| "to_String (Str s) = s"
| "to_String (Arr xs) =
     join_comma (map (\<lambda>x. if x = Undefined \<or> x = Null then [] else to_String x) xs)"
| "to_String (Obj kvs) = str ''[object Object]''"

text \<open>
  ToBoolean: the falsy values are \<^verbatim>\<open>undefined\<close>, \<^verbatim>\<open>null\<close>, the empty string and the
  primitives \<^verbatim>\<open>0\<close>, \<^verbatim>\<open>-0\<close>, \<^verbatim>\<open>0n\<close> (all rendered 0), \<^verbatim>\<open>NaN\<close> and \<^verbatim>\<open>false\<close>.
\<close>

fun truthy :: "jsval \<Rightarrow> bool" where
  "truthy Undefined = False"
| "truthy Null = False"
| "truthy (Prim r) = (r \<noteq> str ''0'' \<and> r \<noteq> str ''NaN'' \<and> r \<noteq> str ''false'')"
| "truthy (Str s) = (s \<noteq> [])"
| "truthy (Arr xs) = True"
| "truthy (Obj kvs) = True"

text \<open>
  Faults raised by the JavaScript engine itself, each a \<^verbatim>\<open>TypeError\<close>, with the value
  it was raised on: calling \<^verbatim>\<open>trim\<close> on a value that is no string, iterating a value
  that is not iterable, \<^verbatim>\<open>Object.values\<close> of \<^verbatim>\<open>undefined\<close> or \<^verbatim>\<open>null\<close>.
\<close>

datatype engine_fault = NoTrim jsval | NotIterable jsval | ValuesOfNullish jsval

datatype thrown = JsError jsstring | JsTypeError engine_fault | JsOther jsval

text \<open>\<^verbatim>\<open>Object.values(v)\<close> and the items a \<^verbatim>\<open>for ... of\<close> loop visits.\<close>

fun Object_values :: "jsval \<Rightarrow> thrown + jsval list" where
  "Object_values Undefined = Inl (JsTypeError (ValuesOfNullish Undefined))"
| "Object_values Null = Inl (JsTypeError (ValuesOfNullish Null))"
| "Object_values (Prim r) = Inr []"
| "Object_values (Str s) = Inr (map (\<lambda>c. Str [c]) s)"
| "Object_values (Arr xs) = Inr xs"
| "Object_values (Obj kvs) = Inr (map snd kvs)"

fun code_points :: "jsstring \<Rightarrow> jsstring list" where
  "code_points [] = []"
| "code_points [c] = [[c]]"
| "code_points (c # d # r) =
     (if 55296 \<le> c \<and> c \<le> 56319 \<and> 56320 \<le> d \<and> d \<le> 57343
      then [c, d] # code_points r else [c] # code_points (d # r))"

fun for_of_items :: "jsval \<Rightarrow> thrown + jsval list" where
  "for_of_items (Arr xs) = Inr xs"
| "for_of_items (Str s) = Inr (map Str (code_points s))"
| "for_of_items v = Inl (JsTypeError (NotIterable v))"

text \<open>\<^verbatim>\<open>xs[0]\<close>: reading index 0 of an empty array gives \<^verbatim>\<open>undefined\<close>.\<close>

fun index0 :: "jsval list \<Rightarrow> jsval" where
  "index0 [] = Undefined"
| "index0 (v # vs) = v"

section \<open>QueryValidator\<close>

definition DANGEROUS_PATTERNS :: "item list list" where
  "DANGEROUS_PATTERNS =
    [ lit_i ''DROP'' @ [Plus Space] @ lit_i ''DATABASE'',
      lit_i ''DROP'' @ [Plus Space] @ lit_i ''TABLE'',
      lit_i ''DELETE'' @ [Plus Space] @ lit_i ''FROM'' @ [Star Dot] @ lit_i ''WHERE''
        @ [Star Dot] @ lit_i ''1'' @ [Star Space] @ lit_i ''='' @ [Star Space] @ lit_i ''1'',
      lit_i ''TRUNCATE'' ]"

definition empty_query_message :: jsstring where
  "empty_query_message = str ''Query n'' @ [227] @ str ''o pode estar vazia''"

definition dangerous_query_message :: jsstring where
  "dangerous_query_message =
     str ''Query cont'' @ [233] @ str ''m opera'' @ [231, 245]
       @ str ''es potencialmente perigosas''"

definition invalid_table_name_message :: jsstring where
  "invalid_table_name_message = str ''Nome de tabela inv'' @ [225] @ str ''lido''"

fun first_hit :: "item list list \<Rightarrow> jsstring \<Rightarrow> bool" where
  "first_hit [] s = False"
| "first_hit (p # ps) s = (if test p s then True else first_hit ps s)"

text \<open>
  \<^verbatim>\<open>query.trim()\<close> raises a \<^verbatim>\<open>TypeError\<close> when the argument that arrived is no
  string; the empty string is the only falsy string.
\<close>

fun validate :: "jsval \<Rightarrow> thrown + unit" where
  "validate (Str query) =
     (let normalizedQuery = trim query in
      if normalizedQuery = [] then Inl (JsError empty_query_message)
      else if first_hit DANGEROUS_PATTERNS normalizedQuery
        then Inl (JsError dangerous_query_message)
      else Inr ())"
| "validate v = Inl (JsTypeError (NoTrim v))"

definition identifier_pattern :: "item list" where
  "identifier_pattern = [Bol, Plus (Class [(97, 122), (65, 90), (48, 57), (95, 95)]), Eol]"

text \<open>\<^verbatim>\<open>test\<close> converts its argument to a string; the argument itself is returned.\<close>

definition sanitizeTableName :: "jsval \<Rightarrow> thrown + jsval" where
  "sanitizeTableName tableName =
     (if \<not> test identifier_pattern (to_String tableName)
      then Inl (JsError invalid_table_name_message)
      else Inr tableName)"

section \<open>The runtime and the state of the server\<close>

text \<open>
  The driver, \<^verbatim>\<open>JSON.stringify\<close> and the messages of the engine's own errors are not
  code of this repository: they are parameters. \<open>'c\<close> is a connection handle, \<open>'w\<close>
  everything outside the process (the database server and the network). A driver call
  takes the outside world and returns its result, a thrown value or a value, with the
  outside world after the call. \<open>connection_execute\<close> returns the first component of
  the pair that \<^verbatim>\<open>execute\<close> of the driver resolves to, which is all the source uses.
  \<open>json_text v\<close> is \<^verbatim>\<open>JSON.stringify(v, null, 2)\<close> for a value other than
  \<^verbatim>\<open>undefined\<close>.
\<close>

record MySQLConfig =
  cfg_host :: jsstring
  cfg_port :: int
  cfg_user :: jsstring
  cfg_password :: jsstring
  cfg_database :: "jsstring option"

record ('c, 'w) runtime =
  createConnection :: "MySQLConfig \<Rightarrow> 'w \<Rightarrow> (thrown + 'c) \<times> 'w"
  connection_execute :: "'c \<Rightarrow> jsstring \<Rightarrow> 'w \<Rightarrow> (thrown + jsval) \<times> 'w"
  connection_end :: "'c \<Rightarrow> 'w \<Rightarrow> (thrown + unit) \<times> 'w"
  json_text :: "jsval \<Rightarrow> jsstring"
  fault_message :: "engine_fault \<Rightarrow> jsstring"

text \<open>
  The calls made to the driver are recorded in \<open>trace\<close>, oldest first: a statement
  reaches the database exactly when an \<open>Executed\<close> event is appended. Requests are
  handled one after the other; the log lines written to standard error are left out.
\<close>

datatype event = Created | CreateFailed | Executed jsstring | Ended | EndFailed

record ('c, 'w) server =
  config :: MySQLConfig
  connection :: "'c option"
  world :: 'w
  trace :: "event list"

type_synonym ('a, 'c, 'w) action = "('c, 'w) server \<Rightarrow> (thrown + 'a) \<times> ('c, 'w) server"

definition ok :: "'a \<Rightarrow> ('a, 'c, 'w) action" where
  "ok v st = (Inr v, st)"

definition raise :: "thrown \<Rightarrow> ('a, 'c, 'w) action" where
  "raise e st = (Inl e, st)"

definition lift :: "thrown + 'a \<Rightarrow> ('a, 'c, 'w) action" where
  "lift r st = (r, st)"

definition andThen :: "('a, 'c, 'w) action \<Rightarrow> ('a \<Rightarrow> ('b, 'c, 'w) action) \<Rightarrow> ('b, 'c, 'w) action" where
  "andThen m f st = (case m st of (Inl e, st') \<Rightarrow> (Inl e, st') | (Inr v, st') \<Rightarrow> f v st')"

definition tryCatch :: "('a, 'c, 'w) action \<Rightarrow> (thrown \<Rightarrow> ('a, 'c, 'w) action) \<Rightarrow> ('a, 'c, 'w) action" where
  "tryCatch m h st = (case m st of (Inl e, st') \<Rightarrow> h e st' | (Inr v, st') \<Rightarrow> (Inr v, st'))"

text \<open>\<^verbatim>\<open>error instanceof Error ? error.message : String(error)\<close>\<close>

fun message_of :: "('c, 'w) runtime \<Rightarrow> thrown \<Rightarrow> jsstring" where
  "message_of rt (JsError m) = m"
| "message_of rt (JsTypeError f) = fault_message rt f"
| "message_of rt (JsOther v) = to_String v"

section \<open>DatabaseConnection\<close>

definition connect_failed_prefix :: jsstring where
  "connect_failed_prefix = str ''Falha na conex'' @ [227] @ str ''o: ''"

definition not_connected_message :: jsstring where
  "not_connected_message = str ''Conex'' @ [227] @ str ''o n'' @ [227] @ str ''o estabelecida''"

definition connect :: "('c, 'w) runtime \<Rightarrow> (unit, 'c, 'w) action" where
  "connect rt st =
     (case connection st of
        Some c \<Rightarrow> (Inr (), st)
      | None \<Rightarrow>
          (case createConnection rt (config st) (world st) of
             (Inr c, w) \<Rightarrow>
               (Inr (), st\<lparr>connection := Some c, world := w, trace := trace st @ [Created]\<rparr>)
           | (Inl e, w) \<Rightarrow>
               (Inl (JsError (connect_failed_prefix @ message_of rt e)),
                st\<lparr>world := w, trace := trace st @ [CreateFailed]\<rparr>)))"

definition execute :: "('c, 'w) runtime \<Rightarrow> jsstring \<Rightarrow> (jsval, 'c, 'w) action" where
  "execute rt query st =
     (case connection st of
        None \<Rightarrow> (Inl (JsError not_connected_message), st)
      | Some c \<Rightarrow>
          (case connection_execute rt c query (world st) of
             (r, w) \<Rightarrow> (r, st\<lparr>world := w, trace := trace st @ [Executed query]\<rparr>)))"

definition use_statement :: "jsval \<Rightarrow> jsstring" where
  "use_statement database = str ''USE '' @ [96] @ to_String database @ [96]"

definition useDatabase :: "('c, 'w) runtime \<Rightarrow> jsval \<Rightarrow> (unit, 'c, 'w) action" where
  "useDatabase rt database = andThen (execute rt (use_statement database)) (\<lambda>_. ok ())"

definition isConnected :: "('c, 'w) server \<Rightarrow> bool" where
  "isConnected st = (connection st \<noteq> None)"

definition close :: "('c, 'w) runtime \<Rightarrow> (unit, 'c, 'w) action" where
  "close rt st =
     (case connection st of
        None \<Rightarrow> (Inr (), st)
      | Some c \<Rightarrow>
          (case connection_end rt c (world st) of
             (Inr _, w) \<Rightarrow>
               (Inr (), st\<lparr>connection := None, world := w, trace := trace st @ [Ended]\<rparr>)
           | (Inl e, w) \<Rightarrow> (Inl e, st\<lparr>world := w, trace := trace st @ [EndFailed]\<rparr>)))"

section \<open>ResponseFormatter\<close>

datatype content_item = TextContent jsstring

datatype tool_result = ToolResult (content: "content_item list")

definition error_prefix :: jsstring where
  "error_prefix = [10060] @ str '' Erro: ''"

definition success :: "jsstring \<Rightarrow> tool_result" where
  "success text = ToolResult [TextContent text]"

definition error :: "jsstring \<Rightarrow> tool_result" where
  "error message = ToolResult [TextContent (error_prefix @ message)]"

text \<open>\<^verbatim>\<open>JSON.stringify\<close> of \<^verbatim>\<open>undefined\<close> is \<^verbatim>\<open>undefined\<close>.\<close>

definition JSON_stringify :: "('c, 'w) runtime \<Rightarrow> jsval \<Rightarrow> jsstring option" where
  "JSON_stringify rt v = (if v = Undefined then None else Some (json_text rt v))"

fun interpolate :: "jsstring option \<Rightarrow> jsstring" where
  "interpolate None = str ''undefined''"
| "interpolate (Some s) = s"

definition queryResult :: "('c, 'w) runtime \<Rightarrow> jsval \<Rightarrow> jsval \<Rightarrow> tool_result" where
  "queryResult rt query data =
     success (str ''Resultado da query:'' @ [10, 96, 96, 96] @ str ''sql'' @ [10]
       @ to_String query
       @ [10, 96, 96, 96, 10, 10] @ str ''Resultados:'' @ [10, 96, 96, 96] @ str ''json'' @ [10]
       @ interpolate (JSON_stringify rt data)
       @ [10, 96, 96, 96])"

definition tableStructure :: "('c, 'w) runtime \<Rightarrow> jsval \<Rightarrow> jsval \<Rightarrow> tool_result" where
  "tableStructure rt tableName data =
     success (str ''Estrutura da tabela '' @ [34] @ to_String tableName
       @ [34] @ str '':'' @ [10, 96, 96, 96] @ str ''json'' @ [10]
       @ interpolate (JSON_stringify rt data)
       @ [10, 96, 96, 96])"

section \<open>ToolsHandler\<close>

definition describe_statement :: "jsval \<Rightarrow> jsstring" where
  "describe_statement tableName = str ''DESCRIBE '' @ [96] @ to_String tableName @ [96]"

definition executeQuery ::
  "('c, 'w) runtime \<Rightarrow> jsval \<Rightarrow> jsval \<Rightarrow> (tool_result, 'c, 'w) action" where
  "executeQuery rt query database =
     tryCatch
       (andThen (lift (validate query)) (\<lambda>_.
        andThen (if truthy database then useDatabase rt database else ok ()) (\<lambda>_.
        andThen (execute rt (to_String query)) (\<lambda>rows.
        ok (queryResult rt query rows)))))
       (\<lambda>e. ok (error (message_of rt e)))"

definition describeTable ::
  "('c, 'w) runtime \<Rightarrow> jsval \<Rightarrow> jsval \<Rightarrow> (tool_result, 'c, 'w) action" where
  "describeTable rt tableName database =
     tryCatch
       (andThen (lift (sanitizeTableName tableName)) (\<lambda>sanitizedName.
        andThen (if truthy database then useDatabase rt database else ok ()) (\<lambda>_.
        andThen (execute rt (describe_statement sanitizedName)) (\<lambda>rows.
        ok (tableStructure rt sanitizedName rows)))))
       (\<lambda>e. ok (error (message_of rt e)))"

section \<open>ResourcesHandler\<close>

record resource_content =
  uri :: jsstring
  mimeType :: jsstring
  resource_text :: "jsstring option"

datatype resource_result = ResourceResult (contents: "resource_content list")

definition getDatabases :: "('c, 'w) runtime \<Rightarrow> (resource_result, 'c, 'w) action" where
  "getDatabases rt =
     andThen (execute rt (str ''SHOW DATABASES'')) (\<lambda>rows.
     ok (ResourceResult
       [\<lparr>uri = str ''mysql://databases'', mimeType = str ''application/json'',
         resource_text = JSON_stringify rt rows\<rparr>]))"

definition getTables :: "('c, 'w) runtime \<Rightarrow> (resource_result, 'c, 'w) action" where
  "getTables rt =
     andThen (execute rt (str ''SHOW TABLES'')) (\<lambda>rows.
     ok (ResourceResult
       [\<lparr>uri = str ''mysql://tables'', mimeType = str ''application/json'',
         resource_text = JSON_stringify rt rows\<rparr>]))"

text \<open>
  The loop of \<^verbatim>\<open>getSchema\<close> over the rows of the table listing; \<open>acc\<close> is
  \<^verbatim>\<open>schema.tables\<close> so far. A statement that fails ends the loop with its error.
\<close>

definition schema_entry :: "jsval \<Rightarrow> jsval \<Rightarrow> jsval" where
  "schema_entry tableName columns =
     Obj [(str ''name'', tableName), (str ''columns'', columns)]"

fun schema_loop ::
  "('c, 'w) runtime \<Rightarrow> jsval list \<Rightarrow> jsval list \<Rightarrow> (jsval list, 'c, 'w) action" where
  "schema_loop rt [] acc st = (Inr acc, st)"
| "schema_loop rt (table # rest) acc st =
     (case Object_values table of
        Inl e \<Rightarrow> (Inl e, st)
      | Inr vals \<Rightarrow>
          (case execute rt (describe_statement (index0 vals)) st of
             (Inl e, st') \<Rightarrow> (Inl e, st')
           | (Inr columns, st') \<Rightarrow>
               schema_loop rt rest (acc @ [schema_entry (index0 vals) columns]) st'))"

text \<open>The object \<^verbatim>\<open>schema\<close> that \<^verbatim>\<open>getSchema\<close> builds, before it is serialised.\<close>

definition getSchema_object :: "('c, 'w) runtime \<Rightarrow> (jsval, 'c, 'w) action" where
  "getSchema_object rt =
     andThen (execute rt (str ''SHOW TABLES'')) (\<lambda>tables.
     andThen (lift (for_of_items tables)) (\<lambda>rows.
     andThen (schema_loop rt rows []) (\<lambda>entries.
     ok (Obj [(str ''tables'', Arr entries)]))))"

definition getSchema :: "('c, 'w) runtime \<Rightarrow> (resource_result, 'c, 'w) action" where
  "getSchema rt =
     andThen (getSchema_object rt) (\<lambda>schema.
     ok (ResourceResult
       [\<lparr>uri = str ''mysql://schema'', mimeType = str ''application/json'',
         resource_text = JSON_stringify rt schema\<rparr>]))"

section \<open>PromptsHandler\<close>

record prompt_argument =
  argument_name :: jsstring
  argument_description :: jsstring
  required :: bool

record prompt_info =
  prompt_name :: jsstring
  prompt_description :: jsstring
  arguments :: "prompt_argument list option"

definition getPrompts :: "prompt_info list" where
  "getPrompts =
    [ \<lparr>prompt_name = str ''analyze_table'',
       prompt_description = str ''Analisa uma tabela espec'' @ [237] @ str ''fica'',
       arguments = Some
         [\<lparr>argument_name = str ''table_name'',
           argument_description = str ''Nome da tabela para analisar'',
           required = True\<rparr>]\<rparr>,
      \<lparr>prompt_name = str ''find_large_tables'',
       prompt_description = str ''Encontra tabelas com mais registros'',
       arguments = None\<rparr>,
      \<lparr>prompt_name = str ''database_overview'',
       prompt_description = str ''Vis'' @ [227] @ str ''o geral do banco de dados'',
       arguments = None\<rparr> ]"

text \<open>A message with role \<^verbatim>\<open>user\<close> and a content of type \<^verbatim>\<open>text\<close>.\<close>

datatype prompt_message = UserText jsstring

record prompt_result =
  description :: jsstring
  messages :: "prompt_message list"

type_synonym arguments = "(jsstring \<rightharpoonup> jsval) option"

text \<open>\<^verbatim>\<open>args?.key\<close>: \<^verbatim>\<open>undefined\<close> when there are no arguments or the key is absent.\<close>

definition get_arg :: "arguments \<Rightarrow> jsstring \<Rightarrow> jsval" where
  "get_arg args key =
     (case args of
        None \<Rightarrow> Undefined
      | Some m \<Rightarrow> (case m key of None \<Rightarrow> Undefined | Some v \<Rightarrow> v))"

definition missing_table_name_message :: jsstring where
  "missing_table_name_message =
     str ''table_name '' @ [233] @ str '' obrigat'' @ [243] @ str ''rio''"

definition prompt_not_found_prefix :: jsstring where
  "prompt_not_found_prefix = str ''Prompt n'' @ [227] @ str ''o encontrado: ''"

definition analyze_table_text :: "jsval \<Rightarrow> jsstring" where
  "analyze_table_text tableName =
     str ''Analise a tabela '' @ [34] @ to_String tableName @ [34]
      @ str '':'' @ [10] @ str ''              '' @ [10]
      @ str ''1. Descreva a estrutura da tabela'' @ [10]
      @ str ''2. Mostre alguns dados de exemplo '' @ [10] @ str ''3. Calcule estat''
      @ [237] @ str ''sticas b'' @ [225] @ str ''sicas (contagem de registros)'' @ [10]
      @ str ''4. Identifique poss'' @ [237]
      @ str ''veis problemas ou oportunidades de otimiza'' @ [231, 227] @ str ''o''"

definition find_large_tables_text :: jsstring where
  "find_large_tables_text =
     str ''Liste todas as tabelas do banco atual:'' @ [10] @ str ''              '' @ [10]
      @ str ''1. N'' @ [250] @ str ''mero de registros de cada tabela'' @ [10]
      @ str ''2. Ordene por quantidade (maior para menor)'' @ [10]
      @ str ''3. Identifique as 5 maiores tabelas'' @ [10] @ str ''4. Sugira estrat''
      @ [233] @ str ''gias de otimiza'' @ [231, 227] @ str ''o se necess'' @ [225]
      @ str ''rio''"

definition database_overview_text :: jsstring where
  "database_overview_text =
     str ''Vis'' @ [227] @ str ''o geral completa do banco:'' @ [10]
      @ str ''              '' @ [10] @ str ''1. Liste todos os bancos dispon'' @ [237]
      @ str ''veis'' @ [10] @ str ''2. Para o banco atual, mostre todas as tabelas'' @ [10]
      @ str ''3. Identifique relacionamentos entre tabelas'' @ [10]
      @ str ''4. Sugira melhorias na estrutura''"

definition getPrompt :: "jsstring \<Rightarrow> arguments \<Rightarrow> thrown + prompt_result" where
  "getPrompt name args =
     (if name = str ''analyze_table'' then
        (let tableName = get_arg args (str ''table_name'') in
         if \<not> truthy tableName then Inl (JsError missing_table_name_message)
         else Inr \<lparr>description = str ''An'' @ [225] @ str ''lise da tabela '' @ to_String tableName,
                   messages = [UserText (analyze_table_text tableName)]\<rparr>)
      else if name = str ''find_large_tables'' then
        Inr \<lparr>description = str ''Encontrar tabelas com mais registros'',
             messages = [UserText find_large_tables_text]\<rparr>
      else if name = str ''database_overview'' then
        Inr \<lparr>description = str ''Vis'' @ [227] @ str ''o geral do banco de dados'',
             messages = [UserText database_overview_text]\<rparr>
      else Inl (JsError (prompt_not_found_prefix @ name)))"

section \<open>The request handlers of MySQLMCPServer\<close>

definition ensureConnection :: "('c, 'w) runtime \<Rightarrow> (unit, 'c, 'w) action" where
  "ensureConnection rt st = (if \<not> isConnected st then connect rt st else (Inr (), st))"

definition callTool ::
  "('c, 'w) runtime \<Rightarrow> jsstring \<Rightarrow> arguments \<Rightarrow> (tool_result, 'c, 'w) action" where
  "callTool rt name args =
     tryCatch
       (andThen (ensureConnection rt) (\<lambda>_.
        if name = str ''execute_query'' then
          executeQuery rt (get_arg args (str ''query'')) (get_arg args (str ''database''))
        else if name = str ''describe_table'' then
          describeTable rt (get_arg args (str ''table_name'')) (get_arg args (str ''database''))
        else ok (error (str ''Tool desconhecido: '' @ name))))
       (\<lambda>e. ok (error (str ''Erro ao executar '' @ name @ str '': '' @ message_of rt e)))"

definition resource_not_found_prefix :: jsstring where
  "resource_not_found_prefix = str ''Resource n'' @ [227] @ str ''o encontrado: ''"

definition readResource ::
  "('c, 'w) runtime \<Rightarrow> jsstring \<Rightarrow> (resource_result, 'c, 'w) action" where
  "readResource rt uri' =
     tryCatch
       (andThen (ensureConnection rt) (\<lambda>_.
        if uri' = str ''mysql://databases'' then getDatabases rt
        else if uri' = str ''mysql://tables'' then getTables rt
        else if uri' = str ''mysql://schema'' then getSchema rt
        else raise (JsError (resource_not_found_prefix @ uri'))))
       (\<lambda>e. raise (JsError
          (str ''Erro ao ler resource '' @ uri' @ str '': '' @ message_of rt e)))"

datatype request =
    CallToolRequest jsstring arguments
  | ReadResourceRequest jsstring
  | ListPromptsRequest
  | GetPromptRequest jsstring arguments

datatype response =
    ToolResponse tool_result
  | ResourceResponse resource_result
  | PromptsResponse "prompt_info list"
  | PromptResponse prompt_result

definition returning :: "('a \<Rightarrow> response) \<Rightarrow> ('a, 'c, 'w) action \<Rightarrow> (response, 'c, 'w) action" where
  "returning wrap m = andThen m (\<lambda>v. ok (wrap v))"

text \<open>The handlers registered by \<^verbatim>\<open>setupHandlers\<close>, selected by the kind of request.\<close>

fun handle :: "('c, 'w) runtime \<Rightarrow> request \<Rightarrow> (response, 'c, 'w) action" where
  "handle rt (CallToolRequest name args) = returning ToolResponse (callTool rt name args)"
| "handle rt (ReadResourceRequest uri') = returning ResourceResponse (readResource rt uri')"
| "handle rt ListPromptsRequest = ok (PromptsResponse getPrompts)"
| "handle rt (GetPromptRequest name args) =
     returning PromptResponse (lift (getPrompt name args))"

section \<open>A small runtime for concrete runs\<close>

text \<open>
  A database with the tables \<^verbatim>\<open>users\<close> and \<^verbatim>\<open>order-items\<close> that answers every
  statement and never changes, and a server that cannot be reached.
\<close>

definition demo_rows :: "jsstring \<Rightarrow> thrown + jsval" where
  "demo_rows q =
     (if q = str ''SHOW TABLES'' then
        Inr (Arr [Obj [(str ''Tables_in_shop'', Str (str ''users''))],
                  Obj [(str ''Tables_in_shop'', Str (str ''order-items''))]])
      else if q = str ''DESCRIBE '' @ [96] @ str ''users'' @ [96] then
        Inr (Arr [Obj [(str ''Field'', Str (str ''id'')), (str ''Type'', Str (str ''int''))]])
      else if q = str ''DESCRIBE '' @ [96] @ str ''order-items'' @ [96] then
        Inr (Arr [Obj [(str ''Field'', Str (str ''sku'')), (str ''Type'', Str (str ''text''))]])
      else Inr (Arr []))"

definition demo_runtime :: "(nat, unit) runtime" where
  "demo_runtime =
     \<lparr>createConnection = (\<lambda>cfg w. (Inr 0, w)),
      connection_execute = (\<lambda>c q w. (demo_rows q, w)),
      connection_end = (\<lambda>c w. (Inr (), w)),
      json_text = to_String,
      fault_message = (\<lambda>f. str ''TypeError'')\<rparr>"

definition offline_runtime :: "(nat, unit) runtime" where
  "offline_runtime =
     demo_runtime\<lparr>createConnection := (\<lambda>cfg w. (Inl (JsError (str ''connect ECONNREFUSED'')), w))\<rparr>"

definition demo_config :: MySQLConfig where
  "demo_config =
     \<lparr>cfg_host = str ''localhost'', cfg_port = 3306, cfg_user = str ''root'',
      cfg_password = [], cfg_database = Some (str ''shop'')\<rparr>"

text \<open>The server as its constructor leaves it: no connection, no driver call made.\<close>

definition initial :: "MySQLConfig \<Rightarrow> 'w \<Rightarrow> ('c, 'w) server" where
  "initial cfg w = \<lparr>config = cfg, connection = None, world = w, trace = []\<rparr>"

definition connected_demo :: "(nat, unit) server" where
  "connected_demo = \<lparr>config = demo_config, connection = Some 0, world = (), trace = [Created]\<rparr>"

section \<open>Notions of the specification\<close>

text \<open>The character class of an identifier, in the specification's words: a letter
  of A to Z in either case, a digit, or the underscore.\<close>

definition identifier_char :: "nat \<Rightarrow> bool" where
  "identifier_char c =
     ((65 \<le> c \<and> c \<le> 90) \<or> (97 \<le> c \<and> c \<le> 122) \<or> (48 \<le> c \<and> c \<le> 57) \<or> c = 95)"

text \<open>The prompt-category requests.\<close>

fun is_prompt_request :: "request \<Rightarrow> bool" where
  "is_prompt_request ListPromptsRequest = True"
| "is_prompt_request (GetPromptRequest name args) = True"
| "is_prompt_request r = False"

text \<open>The number of connections that the driver has created.\<close>

definition created :: "event list \<Rightarrow> nat" where
  "created tr = length (filter (\<lambda>e. e = Created) tr)"

text \<open>The lower-case form of a code unit, for the letters A to Z.\<close>

definition lower_case :: "nat \<Rightarrow> nat" where
  "lower_case c = (if 65 \<le> c \<and> c \<le> 90 then c + 32 else c)"

text \<open>
  An error envelope: a tool result whose only content item is a text that starts with
  the prefix that \<open>error\<close> of the ResponseFormatter writes.
\<close>

fun is_error_envelope :: "tool_result \<Rightarrow> bool" where
  "is_error_envelope (ToolResult [TextContent t]) =
     (take (length error_prefix) t = error_prefix)"
| "is_error_envelope r = False"

text \<open>The statements that reached the database, oldest first.\<close>

fun statements :: "event list \<Rightarrow> jsstring list" where
  "statements [] = []"
| "statements (Executed q # tr) = q # statements tr"
| "statements (e # tr) = statements tr"





section \<open>Facts about the regular expressions\<close>

lemma test_from_Bol_later: "test_from (Bol # p) False s = False"
  by (induction s) simp_all

lemma star_to_end: "matches_at [Star a, Eol] b s = list_all (sat a) s"
  by (induction s arbitrary: b) simp_all

lemma in_identifier_ranges:
  "in_ranges [(97, 122), (65, 90), (48, 57), (95, 95)] c = identifier_char c"
  by (auto simp: identifier_char_def)

lemma test_identifier_pattern:
  "test identifier_pattern s = (s \<noteq> [] \<and> list_all identifier_char s)"
proof (cases s)
  case Nil
  then show ?thesis by (simp add: test_def identifier_pattern_def)
next
  case (Cons c cs)
  have "sat (Class [(97, 122), (65, 90), (48, 57), (95, 95)]) = identifier_char"
    by (rule ext) (simp only: sat.simps in_identifier_ranges)
  with Cons show ?thesis
    by (simp add: test_def identifier_pattern_def test_from_Bol_later star_to_end
        del: sat.simps)
qed

section \<open>QueryValidator.sanitizeTableName\<close>

text \<open>
  C4, as the specification states it, promises the string back whenever every character
  is alphanumeric or underscore. The empty string has no other character, and it is
  rejected: the pattern asks for at least one character.
\<close>

theorem C4_empty_name_rejected:
  "list_all identifier_char [] \<and> sanitizeTableName (Str []) \<noteq> Inr (Str [])"
  by (simp add: sanitizeTableName_def test_identifier_pattern)

text \<open>
  C4, amended: for every input string, \<open>sanitizeTableName\<close> returns the string unchanged
  when it is not empty and every character of it is a letter of A to Z in either case, a
  digit or the underscore, and fails with the invalid-name error otherwise; no escaping
  is applied.
\<close>

theorem C4_sanitizeTableName:
  "sanitizeTableName (Str s) =
     (if s \<noteq> [] \<and> list_all identifier_char s then Inr (Str s)
      else Inl (JsError invalid_table_name_message))"
  by (simp add: sanitizeTableName_def test_identifier_pattern)

theorem C4_sanitizeTableName_witness:
  "sanitizeTableName (Str (str ''users_1'')) = Inr (Str (str ''users_1''))
   \<and> sanitizeTableName (Str (str ''orders;DROP'')) = Inl (JsError invalid_table_name_message)"
  using C4_sanitizeTableName [of "str ''users_1''"] C4_sanitizeTableName [of "str ''orders;DROP''"]
  by (simp add: str_def identifier_char_def)

section \<open>DatabaseConnection.connect\<close>

text \<open>
  C6: \<open>connect\<close> on a server that holds a connection returns without error and leaves
  the server as it is, so no driver call is made; a \<open>connect\<close> that follows a successful
  \<open>connect\<close> is such a call; and two successive calls starting without a connection, the
  first of which succeeds, create exactly one connection.
\<close>

theorem C6_connect_idempotent:
  "(connection st \<noteq> None \<longrightarrow> connect rt st = (Inr (), st))
   \<and> (fst (connect rt st) = Inr () \<longrightarrow>
        connect rt (snd (connect rt st)) = (Inr (), snd (connect rt st))
        \<and> connection (snd (connect rt st)) \<noteq> None)
   \<and> (connection st = None \<and> fst (connect rt st) = Inr () \<longrightarrow>
        created (trace (snd (connect rt (snd (connect rt st))))) = created (trace st) + 1)"
  by (auto simp: connect_def created_def split: option.splits sum.splits prod.splits)

theorem C6_connect_idempotent_witness:
  "fst (connect demo_runtime (initial demo_config ())) = Inr ()
   \<and> connect demo_runtime (snd (connect demo_runtime (initial demo_config ())))
       = (Inr (), connected_demo)
   \<and> created (trace (snd (connect demo_runtime
         (snd (connect demo_runtime (initial demo_config ())))))) = 1
   \<and> connect demo_runtime connected_demo = (Inr (), connected_demo)"
  using C6_connect_idempotent [of "initial demo_config ()" demo_runtime]
    C6_connect_idempotent [of connected_demo demo_runtime]
  by (simp add: connect_def initial_def demo_runtime_def connected_demo_def created_def)

section \<open>PromptsHandler and the prompt requests\<close>

text \<open>
  C7: for a name that is none of the three prompt names \<open>getPrompt\<close> raises the
  prompt-not-found error, and for \<^verbatim>\<open>analyze_table\<close> without a \<^verbatim>\<open>table_name\<close> argument
  it raises the missing-argument error; the handler of the get-prompt request ends with
  the same thrown value, not with a response.
\<close>

theorem C7_prompt_failures_propagate:
  "(name \<noteq> str ''analyze_table'' \<and> name \<noteq> str ''find_large_tables''
      \<and> name \<noteq> str ''database_overview'' \<longrightarrow>
      getPrompt name args = Inl (JsError (prompt_not_found_prefix @ name))
      \<and> fst (handle rt (GetPromptRequest name args) st)
          = Inl (JsError (prompt_not_found_prefix @ name)))
   \<and> (get_arg args (str ''table_name'') = Undefined \<longrightarrow>
      getPrompt (str ''analyze_table'') args = Inl (JsError missing_table_name_message)
      \<and> fst (handle rt (GetPromptRequest (str ''analyze_table'') args) st)
          = Inl (JsError missing_table_name_message))"
  by (simp add: getPrompt_def returning_def andThen_def lift_def)

theorem C7_prompt_failures_propagate_witness:
  "fst (handle demo_runtime (GetPromptRequest (str ''summarize'') None) connected_demo)
     = Inl (JsError (prompt_not_found_prefix @ str ''summarize''))
   \<and> fst (handle demo_runtime (GetPromptRequest (str ''analyze_table'') (Some Map.empty))
        connected_demo)
     = Inl (JsError missing_table_name_message)"
proof -
  have unknown: "str ''summarize'' \<noteq> str ''analyze_table''
      \<and> str ''summarize'' \<noteq> str ''find_large_tables''
      \<and> str ''summarize'' \<noteq> str ''database_overview''"
    by (simp add: str_def)
  have absent: "get_arg (Some Map.empty) (str ''table_name'') = Undefined"
    by (simp add: get_arg_def)
  from unknown
    C7_prompt_failures_propagate [of "str ''summarize''" None demo_runtime connected_demo]
  have first: "fst (handle demo_runtime (GetPromptRequest (str ''summarize'') None)
      connected_demo) = Inl (JsError (prompt_not_found_prefix @ str ''summarize''))"
    by blast
  from absent
    C7_prompt_failures_propagate [of _ "Some Map.empty" demo_runtime connected_demo]
  have "fst (handle demo_runtime (GetPromptRequest (str ''analyze_table'')
      (Some Map.empty)) connected_demo) = Inl (JsError missing_table_name_message)"
    by blast
  with first show ?thesis by blast
qed

text \<open>
  C8: handling a list-prompts or get-prompt request leaves the server as it is (the
  connection, the outside world and the record of driver calls), and its outcome is the
  same for every state of the server and every driver.
\<close>

theorem C8_prompt_requests_leave_connection:
  "is_prompt_request req \<Longrightarrow>
     snd (handle rt req st) = st \<and> fst (handle rt' req st') = fst (handle rt req st)"
  by (cases req)
     (auto simp: ok_def returning_def andThen_def lift_def split: sum.splits)

theorem C8_prompt_requests_leave_connection_witness:
  "is_prompt_request (GetPromptRequest (str ''find_large_tables'') None)
   \<and> snd (handle demo_runtime (GetPromptRequest (str ''find_large_tables'') None)
        (initial demo_config ())) = initial demo_config ()
   \<and> fst (handle offline_runtime (GetPromptRequest (str ''find_large_tables'') None)
        connected_demo)
     = fst (handle demo_runtime (GetPromptRequest (str ''find_large_tables'') None)
        (initial demo_config ()))"
  using C8_prompt_requests_leave_connection
    [of "GetPromptRequest (str ''find_large_tables'') None" demo_runtime
        "initial demo_config ()" offline_runtime connected_demo]
  by simp

text \<open>
  C10: \<^verbatim>\<open>analyze_table\<close> with \<^verbatim>\<open>table_name\<close> equal to the empty string raises the
  missing-argument error, the same as with \<^verbatim>\<open>table_name\<close> absent or with no arguments.
\<close>

theorem C10_empty_table_name_is_missing:
  "getPrompt (str ''analyze_table'') (Some (m(str ''table_name'' \<mapsto> Str [])))
     = Inl (JsError missing_table_name_message)
   \<and> getPrompt (str ''analyze_table'') (Some (m(str ''table_name'' := None)))
     = Inl (JsError missing_table_name_message)
   \<and> getPrompt (str ''analyze_table'') None = Inl (JsError missing_table_name_message)"
  by (simp add: getPrompt_def get_arg_def)

theorem C10_empty_table_name_is_missing_witness:
  "getPrompt (str ''analyze_table'') (Some [str ''table_name'' \<mapsto> Str []])
     = getPrompt (str ''analyze_table'') (Some Map.empty)"
  using C10_empty_table_name_is_missing [of Map.empty]
  by simp

section \<open>Facts about trim and the deny-list\<close>

lemma dropWhile_keeps_block:
  assumes "t \<noteq> []" and "\<not> P (hd t)"
  shows "\<exists>a'. dropWhile P (a @ t @ b) = a' @ t @ b"
proof (induction a)
  case Nil
  from assms have "dropWhile P (t @ b) = t @ b"
    by (cases t) simp_all
  then show ?case by (intro exI [of _ "[]"]) simp
next
  case (Cons x a)
  then obtain a' where "dropWhile P (a @ t @ b) = a' @ t @ b" by blast
  then show ?case
    by (cases "P x") (auto intro: exI [of _ "x # a"])
qed

lemma trim_keeps_block:
  assumes "t \<noteq> []" and "\<not> is_white_space (hd t)" and "\<not> is_white_space (last t)"
  shows "\<exists>a' b'. trim (a @ t @ b) = a' @ t @ b'"
proof -
  from assms(1,2) obtain a' where
    front: "dropWhile is_white_space (a @ t @ b) = a' @ t @ b"
    using dropWhile_keeps_block by blast
  from assms(1,3) have "rev t \<noteq> []" and "\<not> is_white_space (hd (rev t))"
    by (simp_all add: hd_rev)
  then obtain b' where
    "dropWhile is_white_space (rev b @ rev t @ rev a') = b' @ rev t @ rev a'"
    using dropWhile_keeps_block by blast
  with front have "trim (a @ t @ b) = a' @ t @ rev b'"
    by (simp add: trim_def)
  then show ?thesis by blast
qed

lemma trim_white_space:
  assumes "list_all is_white_space q"
  shows "trim q = []"
proof -
  from assms have front: "dropWhile is_white_space q = []"
    by (induction q) simp_all
  show ?thesis
    by (simp only: trim_def front rev.simps dropWhile.simps)
qed

lemma canonicalize_lower_case:
  "(canonicalize c = canonicalize p) = (lower_case c = lower_case p)"
  by (auto simp: canonicalize_def lower_case_def)

lemma matches_literal:
  "map lower_case t = map lower_case w \<Longrightarrow>
     matches_at (map (\<lambda>p. One (LitI p)) w) b (t @ r)"
proof (induction w arbitrary: t b)
  case Nil
  then show ?case by simp
next
  case (Cons p w)
  then obtain c cs where "t = c # cs" and "lower_case c = lower_case p"
    and "map lower_case cs = map lower_case w"
    by (cases t) auto
  with Cons.IH show ?case
    by (simp add: canonicalize_lower_case)
qed

lemma test_from_later:
  "(\<And>b'. matches_at p b' s) \<Longrightarrow> test_from p b (a @ s)"
proof (induction a arbitrary: b)
  case Nil
  then show ?case by (cases s) simp_all
next
  case (Cons x a)
  then show ?case by simp
qed

lemma lit_i_str: "lit_i w = map (\<lambda>p. One (LitI p)) (str w)"
  by (simp add: lit_i_def str_def)

lemma test_literal:
  "map lower_case t = map lower_case (str w) \<Longrightarrow> test (lit_i w) (a @ t @ b)"
  unfolding test_def lit_i_str
  by (rule test_from_later) (rule matches_literal)

lemma first_hit_iff: "first_hit ps s = (\<exists>p\<in>set ps. test p s)"
  by (induction ps) auto

lemma deny_list_not_empty: "p \<in> set DANGEROUS_PATTERNS \<Longrightarrow> \<not> test p []"
  by (auto simp: DANGEROUS_PATTERNS_def lit_i_def test_def)

lemma truncate_listed: "lit_i ''TRUNCATE'' \<in> set DANGEROUS_PATTERNS"
  by (simp add: DANGEROUS_PATTERNS_def)

lemma validate_deny:
  "\<exists>p\<in>set DANGEROUS_PATTERNS. test p (trim q) \<Longrightarrow>
     validate (Str q) = Inl (JsError dangerous_query_message)"
  using deny_list_not_empty by (auto simp: first_hit_iff Let_def)

lemma validate_blank:
  "list_all is_white_space q \<Longrightarrow> validate (Str q) = Inl (JsError empty_query_message)"
  by (simp add: trim_white_space)

lemma executeQuery_rejected:
  "validate query = Inl e \<Longrightarrow>
     executeQuery rt query db st = (Inr (error (message_of rt e)), st)"
  by (simp add: executeQuery_def tryCatch_def andThen_def lift_def ok_def)

lemma error_is_envelope: "is_error_envelope (error m)"
  by (simp add: error_def)

lemma letter_not_white_space:
  "lower_case c = l \<Longrightarrow> 97 \<le> l \<Longrightarrow> l \<le> 122 \<Longrightarrow> \<not> is_white_space c"
  by (auto simp: lower_case_def is_white_space_def is_line_terminator_def split: if_splits)

lemma validate_truncate:
  assumes "map lower_case t = str ''truncate''"
  shows "validate (Str (a @ t @ b)) = Inl (JsError dangerous_query_message)"
proof -
  from assms have ne: "t \<noteq> []"
    by (auto simp: str_def)
  from assms ne have "lower_case (hd t) = 116" and "lower_case (last t) = 101"
    using hd_map [of t lower_case] last_map [of t lower_case]
    by (simp_all add: str_def)
  then have "\<not> is_white_space (hd t)" and "\<not> is_white_space (last t)"
    using letter_not_white_space by simp_all
  with ne obtain a' b' where kept: "trim (a @ t @ b) = a' @ t @ b'"
    using trim_keeps_block by blast
  from assms have "map lower_case t = map lower_case (str ''TRUNCATE'')"
    by (simp add: str_def lower_case_def)
  then have "test (lit_i ''TRUNCATE'') (a' @ t @ b')"
    by (rule test_literal)
  with kept truncate_listed show ?thesis
    by (intro validate_deny) auto
qed

text \<open>
  C3: when the trimmed query matches a pattern of the deny-list, \<open>executeQuery\<close> returns
  the error envelope of the dangerous-operation message and the server is as before, so
  neither a database switch nor the query was sent; a query of white space only fails
  validation with the empty-query message, and \<open>executeQuery\<close> returns that error
  envelope with the server as before.
\<close>

theorem C3_denied_queries_never_sent:
  "((\<exists>p\<in>set DANGEROUS_PATTERNS. test p (trim q)) \<longrightarrow>
      executeQuery rt (Str q) db st = (Inr (error dangerous_query_message), st)
      \<and> is_error_envelope (error dangerous_query_message))
   \<and> (list_all is_white_space q \<longrightarrow>
      validate (Str q) = Inl (JsError empty_query_message)
      \<and> executeQuery rt (Str q) db st = (Inr (error empty_query_message), st)
      \<and> is_error_envelope (error empty_query_message))"
  using validate_deny [of q] validate_blank [of q]
    executeQuery_rejected [of "Str q" _ rt db st]
  by (auto simp: error_is_envelope)

theorem C3_denied_queries_never_sent_witness:
  "executeQuery demo_runtime (Str (str ''drop  Table users'')) (Str (str ''shop''))
      connected_demo
     = (Inr (error dangerous_query_message), connected_demo)
   \<and> executeQuery demo_runtime (Str (str ''  '')) (Str (str ''shop'')) connected_demo
     = (Inr (error empty_query_message), connected_demo)"
proof -
  have "test (lit_i ''DROP'' @ [Plus Space] @ lit_i ''TABLE'')
          (trim (str ''drop  Table users''))"
    by (simp add: trim_def str_def is_white_space_def is_line_terminator_def lit_i_def
        test_def canonicalize_def)
  then have hit: "\<exists>p\<in>set DANGEROUS_PATTERNS. test p (trim (str ''drop  Table users''))"
    by (simp add: DANGEROUS_PATTERNS_def)
  have blank: "list_all is_white_space (str ''  '')"
    by (simp add: str_def is_white_space_def)
  from hit blank
    C3_denied_queries_never_sent
      [of "str ''drop  Table users''" demo_runtime "Str (str ''shop'')" connected_demo]
    C3_denied_queries_never_sent
      [of "str ''  ''" demo_runtime "Str (str ''shop'')" connected_demo]
  show ?thesis by blast
qed

text \<open>
  C9: a query that contains the letters of \<^verbatim>\<open>truncate\<close>, each in either case, anywhere
  in its text is rejected by \<open>validate\<close> with the dangerous-operation error, whatever
  stands before and after them.
\<close>

theorem C9_truncate_anywhere_rejected:
  "q = a @ t @ b \<Longrightarrow> map lower_case t = str ''truncate'' \<Longrightarrow>
     validate (Str q) = Inl (JsError dangerous_query_message)"
  by (simp only: validate_truncate)

theorem C9_truncate_anywhere_rejected_witness:
  "validate (Str (str ''SELECT Truncate(price, 1) FROM items''))
     = Inl (JsError dangerous_query_message)"
proof -
  have split: "str ''SELECT Truncate(price, 1) FROM items''
      = str ''SELECT '' @ str ''Truncate'' @ str ''(price, 1) FROM items''"
    by (simp add: str_def)
  have letters: "map lower_case (str ''Truncate'') = str ''truncate''"
    by (simp add: str_def lower_case_def)
  from split letters show ?thesis
    by (rule C9_truncate_anywhere_rejected)
qed

section \<open>ToolsHandler: names put into statements\<close>


lemma useDatabase_sends_any_name:
  "connection st = Some c \<Longrightarrow>
     trace (snd (useDatabase rt db st)) = trace st @ [Executed (use_statement db)]"
  by (simp add: useDatabase_def execute_def andThen_def ok_def split: prod.splits sum.splits)

text \<open>
  C2 holds for the table name (\<open>describeTable_rejects_name\<close>) and fails for the database
  name: \<^verbatim>\<open>my-db\<close> has a character outside the class, and both tools send the
  database switch built from it.
\<close>

theorem C2_database_name_sent_unchecked:
  "\<not> list_all identifier_char (str ''my-db'')
   \<and> statements (trace (snd (describeTable demo_runtime (Str (str ''users''))
        (Str (str ''my-db'')) connected_demo)))
     = [str ''USE '' @ [96] @ str ''my-db'' @ [96],
        str ''DESCRIBE '' @ [96] @ str ''users'' @ [96]]
   \<and> statements (trace (snd (executeQuery demo_runtime (Str (str ''SELECT 1''))
        (Str (str ''my-db'')) connected_demo)))
     = [str ''USE '' @ [96] @ str ''my-db'' @ [96], str ''SELECT 1'']"
proof -
  have bad: "\<not> list_all identifier_char (str ''my-db'')"
    by (simp add: str_def identifier_char_def)
  have name: "test identifier_pattern (str ''users'')"
    by (simp add: test_identifier_pattern str_def identifier_char_def)
  have describe: "statements (trace (snd (describeTable demo_runtime (Str (str ''users''))
        (Str (str ''my-db'')) connected_demo)))
     = [str ''USE '' @ [96] @ str ''my-db'' @ [96],
        str ''DESCRIBE '' @ [96] @ str ''users'' @ [96]]"
    using name
    by (simp add: describeTable_def sanitizeTableName_def tryCatch_def andThen_def lift_def
        ok_def useDatabase_def execute_def connected_demo_def demo_runtime_def
        use_statement_def describe_statement_def demo_rows_def str_def)
  have valid: "validate (Str (str ''SELECT 1'')) = Inr ()"
    by (simp add: trim_def str_def is_white_space_def is_line_terminator_def
        DANGEROUS_PATTERNS_def lit_i_def test_def canonicalize_def)
  have query: "statements (trace (snd (executeQuery demo_runtime (Str (str ''SELECT 1''))
        (Str (str ''my-db'')) connected_demo)))
     = [str ''USE '' @ [96] @ str ''my-db'' @ [96], str ''SELECT 1'']"
    using valid
    by (simp add: executeQuery_def tryCatch_def andThen_def lift_def
        ok_def useDatabase_def execute_def connected_demo_def demo_runtime_def
        use_statement_def demo_rows_def del: validate.simps)
       (simp add: str_def)
  from bad describe query show ?thesis by blast
qed

section \<open>The handlers of tool calls and resource reads\<close>















section \<open>ResourcesHandler.getSchema against getTables and describeTable\<close>










end
